theory Spec2Isabelle
  imports Complex_Main "HOL-Library.Sublist" "HOL-Library.Multiset"
begin

section \<open>Numbers and strings of the dashboard\<close>

text \<open>
  The dashboard (\<^verbatim>\<open>src/index.tsx\<close>) stores every numeric field as a JavaScript number.
  \<^verbatim>\<open>getNumericValue\<close> maps NaN to 0 before a record is stored, and every setter of a
  filter range replaces a NaN by a default (\<^verbatim>\<open>parseInt(v) || 1800\<close>,
  \<^verbatim>\<open>parseFloat(v) || Infinity\<close>), so the numbers held in records and in the filter state
  are the finite values and the two infinities. On these, \<^verbatim>\<open><\<close> and \<^verbatim>\<open>>\<close> are the usual
  linear order; the finite values are taken as reals, which is exact for comparison.
  NaN only arises as the result of arithmetic and is written \<open>None\<close> there.
\<close>

datatype number = NegInfinity | Finite real | Infinity

instantiation number :: linorder
begin

fun less_eq_number :: "number \<Rightarrow> number \<Rightarrow> bool" where
  "less_eq_number NegInfinity y = True"
| "less_eq_number (Finite x) NegInfinity = False"
| "less_eq_number (Finite x) (Finite y) = (x \<le> y)"
| "less_eq_number (Finite x) Infinity = True"
| "less_eq_number Infinity Infinity = True"
| "less_eq_number Infinity y = False"

definition less_number :: "number \<Rightarrow> number \<Rightarrow> bool" where
  "less_number a b = (a \<le> b \<and> \<not> b \<le> a)"

instance
proof
  fix x y z :: number
  show "(x < y) = (x \<le> y \<and> \<not> y \<le> x)" by (simp add: less_number_def)
  show "x \<le> x" by (cases x) simp_all
  show "x \<le> y \<Longrightarrow> y \<le> z \<Longrightarrow> x \<le> z" by (cases x; cases y; cases z) simp_all
  show "x \<le> y \<Longrightarrow> y \<le> x \<Longrightarrow> x = y" by (cases x; cases y) simp_all
  show "x \<le> y \<or> y \<le> x" by (cases x; cases y) auto
qed

end

text \<open>
  Strings are lists of code units, and the model covers the code units U+0000 to U+00FF
  (Latin-1), one \<open>char\<close> each; text with a code unit above U+00FF is outside the model.
  On this range \<^verbatim>\<open>String.prototype.toLowerCase\<close> maps A to Z (U+0041 to U+005A) and the
  accented capitals U+00C0 to U+00DE, without the multiplication sign U+00D7, to the code
  unit 32 above, and leaves every other code unit alone. \<^verbatim>\<open>String.prototype.trim\<close>
  removes the white space and line terminators at both ends: U+0009 to U+000D, the
  space U+0020 and the no-break space U+00A0.
  \<^verbatim>\<open>s.includes(t)\<close> on strings holds when \<open>t\<close> occurs in \<open>s\<close> as a contiguous block.
\<close>

definition isUpperCase :: "char \<Rightarrow> bool" where
  "isUpperCase c =
     (let n = (of_char c :: nat)
      in (65 \<le> n \<and> n \<le> 90) \<or> (192 \<le> n \<and> n \<le> 214) \<or> (216 \<le> n \<and> n \<le> 222))"

definition toLowerCaseChar :: "char \<Rightarrow> char" where
  "toLowerCaseChar c = (if isUpperCase c then char_of ((of_char c :: nat) + 32) else c)"

definition toLowerCase :: "string \<Rightarrow> string" where
  "toLowerCase s = map toLowerCaseChar s"

definition isWhiteSpace :: "char \<Rightarrow> bool" where
  "isWhiteSpace c =
     (let n = (of_char c :: nat) in (9 \<le> n \<and> n \<le> 13) \<or> n = 32 \<or> n = 160)"

definition trim :: "string \<Rightarrow> string" where
  "trim s = rev (dropWhile isWhiteSpace (rev (dropWhile isWhiteSpace s)))"

definition str_includes :: "string \<Rightarrow> string \<Rightarrow> bool" where
  "str_includes s t = sublist t s"

text \<open>Truthiness of a \<^verbatim>\<open>string | null\<close>: \<^verbatim>\<open>null\<close> and the empty string are falsy.\<close>

fun truthy :: "string option \<Rightarrow> bool" where
  "truthy None = False"
| "truthy (Some s) = (s \<noteq> [])"

section \<open>Data model\<close>

record BuildingData =
  department :: string
  departmentName :: string
  propertyId :: string
  propertyName :: string
  yearEnding :: string
  address1 :: string
  city :: string
  stateProvince :: string
  postalCode :: string
  propertyGFA :: number
  primaryPropertyType :: string
  yearBuilt :: number
  electricityRenewableUsedOnsite :: number
  electricityGridPurchase :: number
  naturalGasUseTherms :: number
  propaneUseKbtu :: number
  waterUseKgal :: number
  percentGreenPower :: number
  greenPowerKWh :: number
  siteEnergyUseKbtu :: number
  leedCertified :: string
  location :: string
  totalElectricityUseKWh :: number
  elecUsedPerSqrFt :: number
  siteEnergyUsedPerSqrFt :: number
  waterUsedPerSqrFt :: number
  hasRenewable :: number

record FilterState =
  departments :: "string list"
  propertyTypes :: "string list"
  yearRange :: "number \<times> number"
  energyRange :: "number \<times> number"
  gfaRange :: "number \<times> number"
  leedCertified :: "string option"
  searchTerm :: string
  selectedCity :: "string option"

text \<open>A record with every string empty and every number 0, the result of normalising \<^verbatim>\<open>{}\<close>.\<close>

definition blankBuilding :: BuildingData where
  "blankBuilding =
     BuildingData.make [] [] [] [] [] [] [] [] [] (Finite 0) [] (Finite 0) (Finite 0) (Finite 0)
       (Finite 0) (Finite 0) (Finite 0) (Finite 0) (Finite 0) (Finite 0) [] [] (Finite 0)
       (Finite 0) (Finite 0) (Finite 0) (Finite 0)"

text \<open>The initial value of \<^verbatim>\<open>currentFilters\<close>.\<close>

definition initialFilters :: FilterState where
  "initialFilters =
     \<lparr>departments = [], propertyTypes = [], yearRange = (Finite 1900, Finite 2025),
      energyRange = (Finite 0, Infinity), gfaRange = (Finite 0, Infinity),
      leedCertified = None, searchTerm = [], selectedCity = None\<rparr>"

section \<open>Filter engine\<close>

text \<open>
  \<^verbatim>\<open>applyFilters(data)\<close> reads the global \<^verbatim>\<open>currentFilters\<close>; the model takes it as the
  first argument. The callback of \<^verbatim>\<open>data.filter\<close> is the chain of early
  \<^verbatim>\<open>return false\<close> statements, in the source's order.
\<close>

definition applyFilters :: "FilterState \<Rightarrow> BuildingData list \<Rightarrow> BuildingData list" where
  "applyFilters currentFilters data = filter (\<lambda>item.
     if length (departments currentFilters) > 0 \<and>
        \<not> List.member (departments currentFilters) (departmentName item) then False
     else if length (propertyTypes currentFilters) > 0 \<and>
        \<not> List.member (propertyTypes currentFilters) (primaryPropertyType item) then False
     else if yearBuilt item < fst (yearRange currentFilters) \<or>
        yearBuilt item > snd (yearRange currentFilters) then False
     else if siteEnergyUseKbtu item < fst (energyRange currentFilters) \<or>
        siteEnergyUseKbtu item > snd (energyRange currentFilters) then False
     else if propertyGFA item < fst (gfaRange currentFilters) \<or>
        propertyGFA item > snd (gfaRange currentFilters) then False
     else if truthy (FilterState.leedCertified currentFilters) \<and>
        (let leedStatus = (if BuildingData.leedCertified item \<noteq> []
                           then toLowerCase (trim (BuildingData.leedCertified item)) else []);
             isLeedCertified = (leedStatus \<noteq> [] \<and> leedStatus \<noteq> ''no'' \<and>
                                leedStatus \<noteq> ''not applicable'' \<and> leedStatus \<noteq> [])
         in (FilterState.leedCertified currentFilters = Some ''certified'' \<and> \<not> isLeedCertified) \<or>
            (FilterState.leedCertified currentFilters = Some ''not-certified'' \<and> isLeedCertified))
       then False
     else if searchTerm currentFilters \<noteq> [] \<and>
        (let searchLower = toLowerCase (searchTerm currentFilters);
             searchableText = toLowerCase (propertyName item @ '' '' @ departmentName item @ '' '' @
                                           address1 item @ '' '' @ city item)
         in \<not> str_includes searchableText searchLower) then False
     else if truthy (selectedCity currentFilters) \<and>
        Some (city item) \<noteq> selectedCity currentFilters then False
     else True) data"

subsection \<open>The predicates of the filter, as the specification words them\<close>

text \<open>
  Each predicate is active only when its part of the filter state is set: an empty
  selection, \<^verbatim>\<open>null\<close> and the empty string mean no restriction.
\<close>

definition departmentMembership :: "FilterState \<Rightarrow> BuildingData \<Rightarrow> bool" where
  "departmentMembership f b = (departments f = [] \<or> departmentName b \<in> set (departments f))"

definition propertyTypeMembership :: "FilterState \<Rightarrow> BuildingData \<Rightarrow> bool" where
  "propertyTypeMembership f b =
     (propertyTypes f = [] \<or> primaryPropertyType b \<in> set (propertyTypes f))"

definition inclusiveRange :: "number \<times> number \<Rightarrow> number \<Rightarrow> bool" where
  "inclusiveRange r v = (fst r \<le> v \<and> v \<le> snd r)"

text \<open>
  Case-insensitivity, stated without \<open>toLowerCase\<close>: two code units differ only in case
  when they are equal or one is a capital and the other lies 32 above it; two strings are
  equal ignoring case when they have the same length and differ only in case position by
  position; a text contains a term ignoring case when one of its contiguous blocks equals
  the term ignoring case.
\<close>

definition differOnlyInCase :: "char \<Rightarrow> char \<Rightarrow> bool" where
  "differOnlyInCase a b =
     (a = b \<or> (isUpperCase a \<and> (of_char b :: nat) = of_char a + 32) \<or>
      (isUpperCase b \<and> (of_char a :: nat) = of_char b + 32))"

definition equalIgnoringCase :: "string \<Rightarrow> string \<Rightarrow> bool" where
  "equalIgnoringCase s t = list_all2 differOnlyInCase s t"

definition containsIgnoringCase :: "string \<Rightarrow> string \<Rightarrow> bool" where
  "containsIgnoringCase s t = (\<exists>w \<in> set (sublists s). equalIgnoringCase w t)"

text \<open>
  A LEED status counts as certified unless, with the white space around it removed, it
  is empty or reads \<^verbatim>\<open>no\<close> or \<^verbatim>\<open>not applicable\<close> in any mix of cases.
\<close>

definition leedStatusCertified :: "BuildingData \<Rightarrow> bool" where
  "leedStatusCertified b =
     (trim (BuildingData.leedCertified b) \<noteq> [] \<and>
      \<not> equalIgnoringCase (trim (BuildingData.leedCertified b)) ''no'' \<and>
      \<not> equalIgnoringCase (trim (BuildingData.leedCertified b)) ''not applicable'')"

definition leedMatch :: "FilterState \<Rightarrow> BuildingData \<Rightarrow> bool" where
  "leedMatch f b =
     (if FilterState.leedCertified f = Some ''certified'' then leedStatusCertified b
      else if FilterState.leedCertified f = Some ''not-certified'' then \<not> leedStatusCertified b
      else True)"

definition searchMatch :: "FilterState \<Rightarrow> BuildingData \<Rightarrow> bool" where
  "searchMatch f b =
     (searchTerm f = [] \<or>
      containsIgnoringCase
        (propertyName b @ '' '' @ departmentName b @ '' '' @ address1 b @ '' '' @ city b)
        (searchTerm f))"

definition cityMatch :: "FilterState \<Rightarrow> BuildingData \<Rightarrow> bool" where
  "cityMatch f b =
     (selectedCity f = None \<or> selectedCity f = Some [] \<or> selectedCity f = Some (city b))"

definition satisfiesAll :: "FilterState \<Rightarrow> BuildingData \<Rightarrow> bool" where
  "satisfiesAll f b =
     (departmentMembership f b \<and> propertyTypeMembership f b \<and>
      inclusiveRange (yearRange f) (yearBuilt b) \<and>
      inclusiveRange (energyRange f) (siteEnergyUseKbtu b) \<and>
      inclusiveRange (gfaRange f) (propertyGFA b) \<and>
      leedMatch f b \<and> searchMatch f b \<and> cityMatch f b)"

section \<open>Application state and interaction handlers\<close>

text \<open>
  The module-level variables of \<^verbatim>\<open>index.tsx\<close> become one record that every handler
  takes and returns. Of the page, the model keeps what the claims speak about: the
  notifications shown by \<^verbatim>\<open>showNotification\<close> (oldest first), the files handed to the
  browser for download, and the drill-down panel (the label and chart id its buttons
  carry) when one is open. Charts, modals and form controls are not modelled.
\<close>

datatype notificationType = Success | Error | Warning | Info

record download =
  filename :: string
  mimeType :: string
  content :: string

record ChartInteractionState =
  selectedItems :: "BuildingData list"
  highlightedCategories :: "string list"
  comparisonMode :: bool
  drillDownLevel :: nat
  currentView :: string
  showPercentages :: bool

record app_state =
  allBuildingData :: "BuildingData list"
  filteredBuildingData :: "BuildingData list"
  currentFilters :: FilterState
  chartInteractionState :: ChartInteractionState
  notifications :: "(string \<times> notificationType) list"
  downloads :: "download list"
  drillDownPanel :: "(string \<times> string) option"

text \<open>The initial value of \<^verbatim>\<open>chartInteractionState\<close>.\<close>

definition initialInteraction :: ChartInteractionState where
  "initialInteraction =
     \<lparr>selectedItems = [], highlightedCategories = [], comparisonMode = False,
      drillDownLevel = 0, currentView = ''overview'', showPercentages = True\<rparr>"

definition showNotification :: "string \<Rightarrow> notificationType \<Rightarrow> app_state \<Rightarrow> app_state" where
  "showNotification message type s = s\<lparr>notifications := notifications s @ [(message, type)]\<rparr>"

definition updateFilteredData :: "app_state \<Rightarrow> app_state" where
  "updateFilteredData s =
     s\<lparr>filteredBuildingData := applyFilters (currentFilters s) (allBuildingData s),
       drillDownPanel := None\<rparr>"

definition getRelatedBuildings :: "string \<Rightarrow> string \<Rightarrow> app_state \<Rightarrow> BuildingData list" where
  "getRelatedBuildings label chartId s =
     (if label = [] \<or> chartId = [] then []
      else if str_includes chartId ''deptDistribution'' then
        filter (\<lambda>b. departmentName b = label) (filteredBuildingData s)
      else if str_includes chartId ''propertyTypes'' then
        filter (\<lambda>b. primaryPropertyType b = label) (filteredBuildingData s)
      else if str_includes chartId ''cityDistribution'' then
        filter (\<lambda>b. city b = label) (filteredBuildingData s)
      else if str_includes chartId ''buildingAge'' then
        filter (\<lambda>b. let year = yearBuilt b in
          if label = ''Pre-1900'' then year > Finite 0 \<and> year < Finite 1900
          else if label = ''1900-1919'' then year \<ge> Finite 1900 \<and> year < Finite 1920
          else if label = ''1920-1939'' then year \<ge> Finite 1920 \<and> year < Finite 1940
          else if label = ''1940-1959'' then year \<ge> Finite 1940 \<and> year < Finite 1960
          else if label = ''1960-1979'' then year \<ge> Finite 1960 \<and> year < Finite 1980
          else if label = ''1980-1999'' then year \<ge> Finite 1980 \<and> year < Finite 2000
          else if label = ''2000-Present'' then year \<ge> Finite 2000
          else if label = ''Unknown/Pre-1899'' then year = Finite 0 \<or> year = Finite 1899
          else False) (filteredBuildingData s)
      else if str_includes chartId ''greenPower'' then
        filter (\<lambda>b. let greenPercent = percentGreenPower b in
          if label = ''0% Usage'' then greenPercent = Finite 0
          else if label = ''1-25%'' then greenPercent > Finite 0 \<and> greenPercent \<le> Finite 25
          else if label = ''26-50%'' then greenPercent > Finite 25 \<and> greenPercent \<le> Finite 50
          else if label = ''51-75%'' then greenPercent > Finite 50 \<and> greenPercent \<le> Finite 75
          else if label = ''76-100%'' then greenPercent > Finite 75 \<and> greenPercent \<le> Finite 100
          else False) (filteredBuildingData s)
      else [])"

text \<open>
  \<^verbatim>\<open>showDrillDownPanel\<close> removes an open panel, and opens a new one unless the clicked
  category has no related building.
\<close>

definition showDrillDownPanel :: "string \<Rightarrow> string \<Rightarrow> app_state \<Rightarrow> app_state" where
  "showDrillDownPanel label chartId s =
     (let s1 = s\<lparr>drillDownPanel := None\<rparr>;
          relatedBuildings = getRelatedBuildings label chartId s1
      in if length relatedBuildings = 0 then s1
         else s1\<lparr>drillDownPanel := Some (label, chartId)\<rparr>)"

definition handleDepartmentClick :: "string \<Rightarrow> app_state \<Rightarrow> app_state" where
  "handleDepartmentClick name s =
     updateFilteredData
       (if List.member (departments (currentFilters s)) name then
          s\<lparr>currentFilters := (currentFilters s)
              \<lparr>departments := filter (\<lambda>d. d \<noteq> name) (departments (currentFilters s))\<rparr>\<rparr>
        else
          s\<lparr>currentFilters := (currentFilters s)
              \<lparr>departments := departments (currentFilters s) @ [name]\<rparr>\<rparr>)"

definition handlePropertyTypeClick :: "string \<Rightarrow> app_state \<Rightarrow> app_state" where
  "handlePropertyTypeClick propertyType s =
     updateFilteredData
       (if List.member (propertyTypes (currentFilters s)) propertyType then
          s\<lparr>currentFilters := (currentFilters s)
              \<lparr>propertyTypes := filter (\<lambda>t. t \<noteq> propertyType) (propertyTypes (currentFilters s))\<rparr>\<rparr>
        else
          s\<lparr>currentFilters := (currentFilters s)
              \<lparr>propertyTypes := propertyTypes (currentFilters s) @ [propertyType]\<rparr>\<rparr>)"

text \<open>\<^verbatim>\<open>handleScatterPointClick\<close> only opens a modal with the details of one building.\<close>

definition handleScatterPointClick :: "nat \<Rightarrow> app_state \<Rightarrow> app_state" where
  "handleScatterPointClick dataIndex s = s"

definition handleGreenPowerBinClick :: "string \<Rightarrow> app_state \<Rightarrow> app_state" where
  "handleGreenPowerBinClick binLabel s =
     updateFilteredData
       (if binLabel = ''0% Usage'' then
          s\<lparr>currentFilters := (currentFilters s)\<lparr>energyRange := (Finite 0, Finite 0)\<rparr>\<rparr>
        else if binLabel = ''1-25%'' then
          s\<lparr>currentFilters := (currentFilters s)\<lparr>energyRange := (Finite 1, Finite 25)\<rparr>\<rparr>
        else s)"

text \<open>
  \<^verbatim>\<open>handleChartClick(event, elements, canvasId)\<close>: the first argument of the model is
  \<open>None\<close> when \<^verbatim>\<open>elements\<close> is empty, and otherwise the index and the label of the
  first clicked element.
\<close>

definition handleChartClick :: "(nat \<times> string) option \<Rightarrow> string \<Rightarrow> app_state \<Rightarrow> app_state" where
  "handleChartClick element canvasId s =
     (case element of
        None \<Rightarrow> s
      | Some (dataIndex, label) \<Rightarrow>
          showDrillDownPanel label canvasId
            (if str_includes canvasId ''deptDistribution'' then handleDepartmentClick label s
             else if str_includes canvasId ''propertyTypes'' then handlePropertyTypeClick label s
             else if str_includes canvasId ''energyVsGfa'' then handleScatterPointClick dataIndex s
             else if str_includes canvasId ''greenPowerDistribution'' then
               handleGreenPowerBinClick label s
             else s))"

text \<open>
  \<^verbatim>\<open>filterToCategory(label, chartId)\<close> is the action of the button
  ``Filter to This Category'' of the drill-down panel and of the buildings list.
\<close>

definition filterToCategory :: "string \<Rightarrow> string \<Rightarrow> app_state \<Rightarrow> app_state" where
  "filterToCategory label chartId s =
     (let s1 =
        (if str_includes chartId ''dept'' \<or> str_includes chartId ''Department'' then
           showNotification (''Filtered to department: '' @ label) Success
             (s\<lparr>currentFilters := (currentFilters s)\<lparr>departments := [label]\<rparr>\<rparr>)
         else if str_includes chartId ''type'' \<or> str_includes chartId ''propertyTypes'' then
           showNotification (''Filtered to property type: '' @ label) Success
             (s\<lparr>currentFilters := (currentFilters s)\<lparr>propertyTypes := [label]\<rparr>\<rparr>)
         else if str_includes chartId ''city'' \<or> str_includes chartId ''cityDistribution'' then
           showNotification (''Filtered to city: '' @ label) Success
             (s\<lparr>currentFilters := (currentFilters s)\<lparr>selectedCity := Some label\<rparr>\<rparr>)
         else if str_includes chartId ''buildingAge'' then
           showNotification (''Filtered to building age: '' @ label) Success
             (if label = ''Pre-1900'' then
                s\<lparr>currentFilters := (currentFilters s)\<lparr>yearRange := (Finite 1800, Finite 1899)\<rparr>\<rparr>
              else if label = ''1900-1919'' then
                s\<lparr>currentFilters := (currentFilters s)\<lparr>yearRange := (Finite 1900, Finite 1919)\<rparr>\<rparr>
              else if label = ''1920-1939'' then
                s\<lparr>currentFilters := (currentFilters s)\<lparr>yearRange := (Finite 1920, Finite 1939)\<rparr>\<rparr>
              else if label = ''1940-1959'' then
                s\<lparr>currentFilters := (currentFilters s)\<lparr>yearRange := (Finite 1940, Finite 1959)\<rparr>\<rparr>
              else if label = ''1960-1979'' then
                s\<lparr>currentFilters := (currentFilters s)\<lparr>yearRange := (Finite 1960, Finite 1979)\<rparr>\<rparr>
              else if label = ''1980-1999'' then
                s\<lparr>currentFilters := (currentFilters s)\<lparr>yearRange := (Finite 1980, Finite 1999)\<rparr>\<rparr>
              else if label = ''2000-Present'' then
                s\<lparr>currentFilters := (currentFilters s)\<lparr>yearRange := (Finite 2000, Finite 2025)\<rparr>\<rparr>
              else if label = ''Unknown/Pre-1899'' then
                s\<lparr>currentFilters := (currentFilters s)\<lparr>yearRange := (Finite 0, Finite 1899)\<rparr>\<rparr>
              else s)
         else if str_includes chartId ''greenPower'' then
           (if label = ''0% Usage'' then
              s\<lparr>currentFilters := (currentFilters s)\<lparr>energyRange := (Finite 0, Finite 0)\<rparr>\<rparr>
            else if label = ''1-25%'' then
              showNotification (''Green power filtering for '' @ label @ '' not yet implemented'')
                Warning s
            else s)
         else s)
      in (updateFilteredData s1)\<lparr>drillDownPanel := None\<rparr>)"

text \<open>
  \<^verbatim>\<open>Math.min(...xs)\<close> and \<^verbatim>\<open>Math.max(...xs)\<close>; without arguments they return
  \<^verbatim>\<open>Infinity\<close> and \<^verbatim>\<open>-Infinity\<close>.
\<close>

definition Math_min :: "number list \<Rightarrow> number" where
  "Math_min xs = fold min xs Infinity"

definition Math_max :: "number list \<Rightarrow> number" where
  "Math_max xs = fold max xs NegInfinity"




text \<open>
  \<^verbatim>\<open>window.resetAllFilters\<close>, the handler of the reset button (the module also has a
  function of the same name that stops after the first assignment and the update).
\<close>

definition resetAllFilters :: "app_state \<Rightarrow> app_state" where
  "resetAllFilters s =
     (let s1 = s\<lparr>currentFilters := initialFilters\<rparr>;
          yearInputs = (if length (allBuildingData s1) > 0
                        then filter (\<lambda>y. y > Finite 1800 \<and> y < Finite 2030)
                               (map yearBuilt (allBuildingData s1))
                        else []);
          s2 = (if length yearInputs > 0 then
                  (let minYear = Math_min yearInputs; maxYear = Math_max yearInputs
                   in s1\<lparr>currentFilters := (currentFilters s1)\<lparr>yearRange := (minYear, maxYear)\<rparr>\<rparr>)
                else s1)
      in showNotification ''All filters have been reset'' Success (updateFilteredData s2))"

section \<open>Comparison set\<close>

text \<open>\<^verbatim>\<open>Array.prototype.find\<close> is \<open>List.find\<close>; \<^verbatim>\<open>findIndex\<close> returns -1 when nothing matches.\<close>

fun findIndex :: "('a \<Rightarrow> bool) \<Rightarrow> 'a list \<Rightarrow> int" where
  "findIndex P [] = -1"
| "findIndex P (x # xs) =
     (if P x then 0 else (let i = findIndex P xs in if i = -1 then -1 else i + 1))"

definition addToComparison :: "string \<Rightarrow> app_state \<Rightarrow> app_state" where
  "addToComparison pid s =
     (case List.find (\<lambda>b. propertyId b = pid) (allBuildingData s) of
        None \<Rightarrow> s
      | Some building \<Rightarrow>
          (let existingIndex =
                 findIndex (\<lambda>item. propertyId item = pid) (selectedItems (chartInteractionState s))
           in if existingIndex = -1 then
                showNotification
                  (''Added '' @ [CHR 0x22] @ propertyName building @ [CHR 0x22] @ '' to comparison'')
                  Success
                  (s\<lparr>chartInteractionState := (chartInteractionState s)
                      \<lparr>selectedItems := selectedItems (chartInteractionState s) @ [building]\<rparr>\<rparr>)
              else
                showNotification
                  ([CHR 0x22] @ propertyName building @ [CHR 0x22] @ '' is already in comparison'')
                  Warning s))"

definition removeFromComparison :: "string \<Rightarrow> app_state \<Rightarrow> app_state" where
  "removeFromComparison pid s =
     (let items = selectedItems (chartInteractionState s);
          index = findIndex (\<lambda>item. propertyId item = pid) items
      in if index \<noteq> -1 then
           (let removed = items ! nat index
            in showNotification
                 (''Removed '' @ [CHR 0x22] @ propertyName removed @ [CHR 0x22] @ '' from comparison'')
                 Info
                 (s\<lparr>chartInteractionState := (chartInteractionState s)
                     \<lparr>selectedItems := take (nat index) items @ drop (nat index + 1) items\<rparr>\<rparr>))
         else s)"

definition clearAllComparison :: "app_state \<Rightarrow> app_state" where
  "clearAllComparison s =
     showNotification ''Cleared all comparison items'' Info
       (s\<lparr>chartInteractionState := (chartInteractionState s)\<lparr>selectedItems := []\<rparr>\<rparr>)"

section \<open>Export\<close>

text \<open>
  A handler that throws returns \<open>Inl\<close> of the error: nothing it did before the throw
  changed the state, and no statement after the throw runs. The conversion of a number
  to its text and \<^verbatim>\<open>JSON.stringify\<close> belong to the JavaScript runtime; the model
  takes them as the parameters \<open>numberText\<close> and \<open>stringify\<close>.
\<close>

datatype js_error = TypeError

datatype exportFormat = CSV | JSON

datatype js_value = Str string | Num number

text \<open>
  \<^verbatim>\<open>Object.keys\<close> and \<^verbatim>\<open>Object.values\<close> of a record, in the order in which
  \<^verbatim>\<open>fetchDataAndParse\<close> writes the properties.
\<close>

definition objectKeys :: "BuildingData \<Rightarrow> string list" where
  "objectKeys b =
     [''department'', ''departmentName'', ''propertyId'', ''propertyName'', ''yearEnding'',
      ''address1'', ''city'', ''stateProvince'', ''postalCode'', ''propertyGFA'',
      ''primaryPropertyType'', ''yearBuilt'', ''electricityRenewableUsedOnsite'',
      ''electricityGridPurchase'', ''naturalGasUseTherms'', ''propaneUseKbtu'', ''waterUseKgal'',
      ''percentGreenPower'', ''greenPowerKWh'', ''siteEnergyUseKbtu'', ''leedCertified'',
      ''location'', ''totalElectricityUseKWh'', ''elecUsedPerSqrFt'', ''siteEnergyUsedPerSqrFt'',
      ''waterUsedPerSqrFt'', ''hasRenewable'']"

definition objectValues :: "BuildingData \<Rightarrow> js_value list" where
  "objectValues b =
     [Str (department b), Str (departmentName b), Str (propertyId b), Str (propertyName b),
      Str (yearEnding b), Str (address1 b), Str (city b), Str (stateProvince b),
      Str (postalCode b), Num (propertyGFA b), Str (primaryPropertyType b), Num (yearBuilt b),
      Num (electricityRenewableUsedOnsite b), Num (electricityGridPurchase b),
      Num (naturalGasUseTherms b), Num (propaneUseKbtu b), Num (waterUseKgal b),
      Num (percentGreenPower b), Num (greenPowerKWh b), Num (siteEnergyUseKbtu b),
      Str (BuildingData.leedCertified b), Str (location b), Num (totalElectricityUseKWh b),
      Num (elecUsedPerSqrFt b), Num (siteEnergyUsedPerSqrFt b), Num (waterUsedPerSqrFt b),
      Num (hasRenewable b)]"

fun join :: "string \<Rightarrow> string list \<Rightarrow> string" where
  "join sep [] = []"
| "join sep [x] = x"
| "join sep (x # y # ys) = x @ sep @ join sep (y # ys)"

definition csvCell :: "(number \<Rightarrow> string) \<Rightarrow> js_value \<Rightarrow> string" where
  "csvCell numberText val =
     (case val of
        Str v \<Rightarrow> if str_includes v '','' then [CHR 0x22] @ v @ [CHR 0x22] else v
      | Num n \<Rightarrow> numberText n)"

definition csvRows :: "(number \<Rightarrow> string) \<Rightarrow> BuildingData list \<Rightarrow> string list" where
  "csvRows numberText data =
     map (\<lambda>item. join '','' (map (csvCell numberText) (objectValues item))) data"

definition triggerDownload :: "string \<Rightarrow> string \<Rightarrow> string \<Rightarrow> app_state \<Rightarrow> app_state" where
  "triggerDownload content' mimeType' filename' s =
     s\<lparr>downloads := downloads s @
         [\<lparr>filename = filename', mimeType = mimeType', content = content'\<rparr>]\<rparr>"

definition exportFilteredData ::
  "(number \<Rightarrow> string) \<Rightarrow> (BuildingData list \<Rightarrow> string) \<Rightarrow> exportFormat \<Rightarrow> app_state
     \<Rightarrow> js_error + app_state" where
  "exportFilteredData numberText stringify format s =
     (let data = filteredBuildingData s
      in if format = CSV then
           (case data of
              [] \<Rightarrow> Inl TypeError
            | first # _ \<Rightarrow>
                (let headers = join '','' (objectKeys first);
                     rows = csvRows numberText data
                 in Inr (triggerDownload (join [CHR 0x0A] (headers # rows)) ''text/csv''
                           ''california_buildings_filtered.csv'' s)))
         else
           Inr (triggerDownload (stringify data) ''application/json''
                  ''california_buildings_filtered.json'' s))"

definition isAlphaNumeric :: "char \<Rightarrow> bool" where
  "isAlphaNumeric c =
     (let n = (of_char c :: nat)
      in (97 \<le> n \<and> n \<le> 122) \<or> (65 \<le> n \<and> n \<le> 90) \<or> (48 \<le> n \<and> n \<le> 57))"

definition exportBuildingsList ::
  "(number \<Rightarrow> string) \<Rightarrow> string \<Rightarrow> string \<Rightarrow> app_state \<Rightarrow> js_error + app_state" where
  "exportBuildingsList numberText label chartId s =
     (let buildings = getRelatedBuildings label chartId s
      in if length buildings = 0 then Inr (showNotification ''No buildings to export'' Warning s)
         else
           (case buildings of
              [] \<Rightarrow> Inl TypeError
            | first # _ \<Rightarrow>
                (let headers = join '','' (objectKeys first);
                     rows = csvRows numberText buildings;
                     content' = join [CHR 0x0A] (headers # rows)
                 in Inr (showNotification
                           (''Exported '' @ numberText (Finite (real (length buildings))) @
                            '' buildings for '' @ label)
                           Success
                           (triggerDownload content' ''text/csv''
                              (''buildings_'' @
                               map (\<lambda>c. if isAlphaNumeric c then c else CHR ''_'') label @ ''.csv'')
                              s)))))"

section \<open>Numeric histograms\<close>

text \<open>
  Arithmetic on numbers can produce NaN, written \<open>None\<close>. The finite values are computed
  as reals, without the rounding of the 64-bit floating-point format, and zero carries no
  sign.
\<close>

fun js_divide :: "number \<Rightarrow> number \<Rightarrow> number option" where
  "js_divide (Finite a) (Finite b) =
     (if b = 0 then (if a = 0 then None else if a > 0 then Some Infinity else Some NegInfinity)
      else Some (Finite (a / b)))"
| "js_divide (Finite a) Infinity = Some (Finite 0)"
| "js_divide (Finite a) NegInfinity = Some (Finite 0)"
| "js_divide Infinity (Finite b) = Some (if b \<ge> 0 then Infinity else NegInfinity)"
| "js_divide NegInfinity (Finite b) = Some (if b \<ge> 0 then NegInfinity else Infinity)"
| "js_divide Infinity Infinity = None"
| "js_divide Infinity NegInfinity = None"
| "js_divide NegInfinity Infinity = None"
| "js_divide NegInfinity NegInfinity = None"

fun js_times :: "number \<Rightarrow> number \<Rightarrow> number option" where
  "js_times (Finite a) (Finite b) = Some (Finite (a * b))"
| "js_times (Finite a) Infinity =
     (if a = 0 then None else if a > 0 then Some Infinity else Some NegInfinity)"
| "js_times (Finite a) NegInfinity =
     (if a = 0 then None else if a > 0 then Some NegInfinity else Some Infinity)"
| "js_times Infinity (Finite b) =
     (if b = 0 then None else if b > 0 then Some Infinity else Some NegInfinity)"
| "js_times NegInfinity (Finite b) =
     (if b = 0 then None else if b > 0 then Some NegInfinity else Some Infinity)"
| "js_times Infinity Infinity = Some Infinity"
| "js_times Infinity NegInfinity = Some NegInfinity"
| "js_times NegInfinity Infinity = Some NegInfinity"
| "js_times NegInfinity NegInfinity = Some Infinity"

fun js_plus :: "number \<Rightarrow> number \<Rightarrow> number option" where
  "js_plus (Finite a) (Finite b) = Some (Finite (a + b))"
| "js_plus (Finite a) Infinity = Some Infinity"
| "js_plus (Finite a) NegInfinity = Some NegInfinity"
| "js_plus Infinity (Finite b) = Some Infinity"
| "js_plus NegInfinity (Finite b) = Some NegInfinity"
| "js_plus Infinity Infinity = Some Infinity"
| "js_plus NegInfinity NegInfinity = Some NegInfinity"
| "js_plus Infinity NegInfinity = None"
| "js_plus NegInfinity Infinity = None"

fun js_negate :: "number \<Rightarrow> number" where
  "js_negate (Finite a) = Finite (- a)"
| "js_negate Infinity = NegInfinity"
| "js_negate NegInfinity = Infinity"

definition js_minus :: "number \<Rightarrow> number \<Rightarrow> number option" where
  "js_minus a b = js_plus a (js_negate b)"

fun Math_floor :: "number \<Rightarrow> number" where
  "Math_floor (Finite a) = Finite (of_int \<lfloor>a\<rfloor>)"
| "Math_floor Infinity = Infinity"
| "Math_floor NegInfinity = NegInfinity"

fun Math_ceil :: "number \<Rightarrow> number" where
  "Math_ceil (Finite a) = Finite (of_int \<lceil>a\<rceil>)"
| "Math_ceil Infinity = Infinity"
| "Math_ceil NegInfinity = NegInfinity"

text \<open>\<^verbatim>\<open>x || d\<close> on numbers: NaN and 0 are falsy.\<close>

definition orDefault :: "number option \<Rightarrow> number \<Rightarrow> number" where
  "orDefault x d = (case x of None \<Rightarrow> d | Some v \<Rightarrow> if v = Finite 0 then d else v)"

text \<open>
  A bin label is built from the start and the end of the bin
  (\<^verbatim>\<open>`${binStart}-${binEnd}`\<close>, for water with \<^verbatim>\<open>toLocaleString\<close> and the unit); the
  model keeps the two numbers instead of their text. The bins are the properties of a
  JavaScript object, kept in insertion order: a list of label and count.
\<close>

datatype binLabel = RangeLabel "number option" "number option" | TextLabel string

text \<open>\<^verbatim>\<open>bins[binLabel] = (bins[binLabel] || 0) + 1\<close>\<close>

fun incrementBin :: "'k \<Rightarrow> ('k \<times> nat) list \<Rightarrow> ('k \<times> nat) list" where
  "incrementBin k [] = [(k, 0 + 1)]"
| "incrementBin k ((k', c) # rest) =
     (if k' = k then (k', (if c = 0 then 0 else c) + 1) # rest
      else (k', c) # incrementBin k rest)"

definition binLabelOf :: "number \<Rightarrow> number \<Rightarrow> binLabel" where
  "binLabelOf binSize v =
     (let binStart = Option.bind (map_option Math_floor (js_divide v binSize))
                       (\<lambda>q. js_times q binSize);
          binEnd = Option.bind (Option.bind binStart (\<lambda>st. js_plus st binSize))
                     (\<lambda>e. js_minus e (Finite 1))
      in RangeLabel binStart binEnd)"

text \<open>
  The key by which the water bins are sorted: the number read back from the text before
  the first \<^verbatim>\<open>-\<close> of the label, which is the start of the bin. A start that is NaN
  arises only when the largest value is \<^verbatim>\<open>Infinity\<close>, and then every value falls into
  that one bin; the key given to it is immaterial.
\<close>

fun binSortKey :: "binLabel \<times> nat \<Rightarrow> number" where
  "binSortKey (RangeLabel (Some st) e, c) = st"
| "binSortKey (RangeLabel None e, c) = Finite 0"
| "binSortKey (TextLabel t, c) = Finite 0"

text \<open>The value of \<^verbatim>\<open>waterBins\<close> that \<^verbatim>\<open>renderWaterUsageCharts\<close> hands to the chart.\<close>

definition waterBins :: "BuildingData list \<Rightarrow> (binLabel \<times> nat) list" where
  "waterBins data =
     (let waterUsePositive = filter (\<lambda>d. waterUseKgal d > Finite 0) data
      in if length waterUsePositive > 0 then
           (let maxWaterUse = Math_max (map waterUseKgal waterUsePositive);
                numBins = Finite 10;
                binSize = orDefault (map_option Math_ceil (js_divide maxWaterUse numBins))
                            (Finite 100);
                bins = fold (\<lambda>d. incrementBin (binLabelOf binSize (waterUseKgal d)))
                         waterUsePositive []
            in sort_key binSortKey bins)
         else [(TextLabel ''No Water Usage Data'', 0)])"

text \<open>
  The value of \<^verbatim>\<open>energyIntensityBins\<close> that \<^verbatim>\<open>renderEfficiencyAnalysis\<close> hands to
  the chart.
\<close>

definition energyIntensityBins :: "BuildingData list \<Rightarrow> (binLabel \<times> nat) list" where
  "energyIntensityBins data =
     (let energyIntensityData =
            map siteEnergyUsedPerSqrFt
              (filter (\<lambda>d. siteEnergyUsedPerSqrFt d > Finite 0 \<and>
                           siteEnergyUsedPerSqrFt d < Finite 1000 \<and>
                           propertyGFA d > Finite 100) data)
      in if length energyIntensityData > 0 then
           (let maxIntensity = Math_max energyIntensityData;
                binSize = orDefault (map_option Math_ceil (js_divide maxIntensity (Finite 15)))
                            (Finite 10)
            in fold (\<lambda>intensity. incrementBin (binLabelOf binSize intensity))
                 energyIntensityData [])
         else [])"

section \<open>A small dataset\<close>

text \<open>
  Two records and a state holding them under the initial filters, used to run the
  handlers on concrete input.
\<close>

definition sacramentoOffice :: BuildingData where
  "sacramentoOffice =
     blankBuilding\<lparr>propertyId := ''P-1'', propertyName := ''Capitol Annex'',
       departmentName := ''General Services'', city := ''Sacramento'',
       primaryPropertyType := ''Office'', yearBuilt := Finite 1950,
       propertyGFA := Finite 20000, siteEnergyUseKbtu := Finite 500,
       waterUseKgal := Finite 250, siteEnergyUsedPerSqrFt := Finite 40\<rparr>"

definition oaklandDepot :: BuildingData where
  "oaklandDepot =
     blankBuilding\<lparr>propertyId := ''P-2'', propertyName := ''Harbor Depot'',
       departmentName := ''Transportation'', city := ''Oakland'',
       primaryPropertyType := ''Warehouse'', yearBuilt := Finite 0,
       propertyGFA := Finite 5000, siteEnergyUseKbtu := Finite 100,
       waterUseKgal := Finite 25, siteEnergyUsedPerSqrFt := Finite 20\<rparr>"

definition sampleState :: app_state where
  "sampleState =
     \<lparr>allBuildingData = [sacramentoOffice, oaklandDepot],
      filteredBuildingData = [sacramentoOffice, oaklandDepot],
      currentFilters = initialFilters\<lparr>yearRange := (Finite 0, Finite 2025)\<rparr>,
      chartInteractionState = initialInteraction,
      notifications = [], downloads = [], drillDownPanel = None\<rparr>"


section \<open>Properties of the filter engine\<close>

lemma truthy_iff: "truthy x \<longleftrightarrow> x \<noteq> None \<and> x \<noteq> Some []"
  by (cases x) simp_all

subsection \<open>Lower case and white space\<close>

text \<open>The letters of the Latin-1 range, capital and small, as a table.\<close>

lemma toLowerCase_ascii_letters:
  "toLowerCase ''ABCDEFGHIJKLMNOPQRSTUVWXYZ'' = ''abcdefghijklmnopqrstuvwxyz''"
  "toLowerCase ''abcdefghijklmnopqrstuvwxyz'' = ''abcdefghijklmnopqrstuvwxyz''"
  "toLowerCase ''0123456789 ,-_@[`{'' = ''0123456789 ,-_@[`{''"
  by code_simp+

lemma toLowerCase_latin1_letters:
  "toLowerCase [CHR 0xC0, CHR 0xC9, CHR 0xD1, CHR 0xD6, CHR 0xD8, CHR 0xDE] =
     [CHR 0xE0, CHR 0xE9, CHR 0xF1, CHR 0xF6, CHR 0xF8, CHR 0xFE]"
  "toLowerCase [CHR 0xD7, CHR 0xDF, CHR 0xF7, CHR 0xFF, CHR 0xB5] =
     [CHR 0xD7, CHR 0xDF, CHR 0xF7, CHR 0xFF, CHR 0xB5]"
  by code_simp+

lemma trim_examples:
  "trim ('' No'' @ [CHR 0xA0, CHR 0x09, CHR 0x0A]) = ''No''"
  "trim '' not  applicable '' = ''not  applicable''"
  "trim [CHR 0x20, CHR 0x0D, CHR 0xA0] = []"
  "trim [CHR 0x85, CHR ''x'', CHR 0x1F] = [CHR 0x85, CHR ''x'', CHR 0x1F]"
  by code_simp+

text \<open>Over all 256 code units: the ones \<open>trim\<close> strips, and the capitals.\<close>

lemma isWhiteSpace_table:
  "filter isWhiteSpace (map char_of [0..<256]) = map char_of [9, 10, 11, 12, 13, 32, 160 :: nat]"
  by code_simp

lemma isUpperCase_table:
  "filter isUpperCase (map char_of [0..<256]) =
     map char_of ([65..<91] @ [192..<215] @ [216..<223])"
  by code_simp

lemma of_char_toLowerCaseChar:
  "(of_char (toLowerCaseChar c) :: nat) = (if isUpperCase c then of_char c + 32 else of_char c)"
proof (cases "isUpperCase c")
  case True
  then have "(of_char c :: nat) + 32 < 256"
    by (auto simp: isUpperCase_def Let_def)
  with True show ?thesis
    by (simp add: toLowerCaseChar_def)
next
  case False
  then show ?thesis by (simp add: toLowerCaseChar_def)
qed

lemma lower_code_eq_iff:
  fixes n m :: nat
  defines "U \<equiv> \<lambda>k::nat. (65 \<le> k \<and> k \<le> 90) \<or> (192 \<le> k \<and> k \<le> 214) \<or> (216 \<le> k \<and> k \<le> 222)"
  shows "((if U n then n + 32 else n) = (if U m then m + 32 else m)) \<longleftrightarrow>
         (n = m \<or> (U n \<and> m = n + 32) \<or> (U m \<and> n = m + 32))"
  unfolding U_def by (cases "65 \<le> n"; cases "n \<le> 90"; cases "192 \<le> n"; cases "n \<le> 214"; cases "216 \<le> n"; cases "n \<le> 222"; simp; linarith)

lemma toLowerCaseChar_eq_iff:
  "toLowerCaseChar a = toLowerCaseChar b \<longleftrightarrow> differOnlyInCase a b"
proof -
  have "toLowerCaseChar a = toLowerCaseChar b \<longleftrightarrow>
        (of_char (toLowerCaseChar a) :: nat) = of_char (toLowerCaseChar b)"
    by simp
  also have "\<dots> \<longleftrightarrow> differOnlyInCase a b"
    unfolding of_char_toLowerCaseChar differOnlyInCase_def isUpperCase_def Let_def
    using lower_code_eq_iff[of "of_char a" "of_char b"]
    by (simp only: of_char_eq_iff[symmetric, where ?'a = nat])
  finally show ?thesis .
qed

lemma toLowerCase_eq_iff:
  "toLowerCase s = toLowerCase t \<longleftrightarrow> equalIgnoringCase s t"
  unfolding toLowerCase_def equalIgnoringCase_def
proof (induction s arbitrary: t)
  case Nil
  then show ?case by auto
next
  case (Cons a s)
  then show ?case
    by (cases t) (auto simp: toLowerCaseChar_eq_iff)
qed

lemma includes_lowered_iff:
  "str_includes (toLowerCase s) (toLowerCase t) \<longleftrightarrow> containsIgnoringCase s t"
proof
  assume "str_includes (toLowerCase s) (toLowerCase t)"
  then have "sublist (map toLowerCaseChar t) (map toLowerCaseChar s)"
    by (simp add: str_includes_def toLowerCase_def)
  then obtain w where w: "sublist w s" "map toLowerCaseChar t = map toLowerCaseChar w"
    using sublist_map_rightE by blast
  then have "equalIgnoringCase w t"
    by (simp add: toLowerCase_eq_iff[symmetric] toLowerCase_def)
  with w(1) show "containsIgnoringCase s t"
    by (auto simp: containsIgnoringCase_def)
next
  assume "containsIgnoringCase s t"
  then obtain w where w: "sublist w s" "equalIgnoringCase w t"
    by (auto simp: containsIgnoringCase_def)
  from w(1) have "sublist (toLowerCase w) (toLowerCase s)"
    unfolding toLowerCase_def by (rule map_mono_sublist)
  with w(2) show "str_includes (toLowerCase s) (toLowerCase t)"
    by (simp add: str_includes_def toLowerCase_eq_iff[symmetric])
qed

lemma lowered_literals:
  "toLowerCase ''no'' = ''no''" "toLowerCase ''not applicable'' = ''not applicable''"
  by code_simp+

lemma toLowerCase_Nil_iff: "toLowerCase s = [] \<longleftrightarrow> s = []"
  by (simp add: toLowerCase_def)

lemma trim_Nil: "trim [] = []"
  by (simp add: trim_def)

lemma lowered_status_iff:
  "toLowerCase x \<notin> {''no'', ''not applicable'', []} \<longleftrightarrow>
   x \<noteq> [] \<and> \<not> equalIgnoringCase x ''no'' \<and> \<not> equalIgnoringCase x ''not applicable''"
  using toLowerCase_eq_iff[of x "''no''"] toLowerCase_eq_iff[of x "''not applicable''"]
  by (auto simp: lowered_literals toLowerCase_Nil_iff)

lemma trim_decomposition:
  "\<exists>l r. s = l @ trim s @ r \<and> list_all isWhiteSpace l \<and> list_all isWhiteSpace r"
proof -
  let ?m = "dropWhile isWhiteSpace s"
  have 1: "s = takeWhile isWhiteSpace s @ ?m" by simp
  have 2: "rev ?m = takeWhile isWhiteSpace (rev ?m) @ dropWhile isWhiteSpace (rev ?m)" by simp
  then have "?m = trim s @ rev (takeWhile isWhiteSpace (rev ?m))"
    by (metis rev_append rev_rev_ident trim_def)
  with 1 have "s = takeWhile isWhiteSpace s @ trim s @ rev (takeWhile isWhiteSpace (rev ?m))"
    by simp
  moreover have "list_all isWhiteSpace (takeWhile isWhiteSpace s)"
    by (auto simp: list_all_iff dest: set_takeWhileD)
  moreover have "list_all isWhiteSpace (rev (takeWhile isWhiteSpace (rev ?m)))"
    by (auto simp: list_all_iff dest: set_takeWhileD)
  ultimately show ?thesis by blast
qed

lemma trim_ends:
  "trim s \<noteq> [] \<Longrightarrow> \<not> isWhiteSpace (hd (trim s)) \<and> \<not> isWhiteSpace (last (trim s))"
proof -
  assume ne: "trim s \<noteq> []"
  let ?m = "dropWhile isWhiteSpace s"
  let ?k = "dropWhile isWhiteSpace (rev ?m)"
  from ne have k: "?k \<noteq> []" by (simp add: trim_def)
  then have "\<not> isWhiteSpace (hd ?k)" by (rule hd_dropWhile)
  then have last: "\<not> isWhiteSpace (last (trim s))"
    using k by (simp add: trim_def last_rev)
  from k have m: "?m \<noteq> []" by (cases ?m) simp_all
  then have hm: "\<not> isWhiteSpace (hd ?m)" by (rule hd_dropWhile)
  have "?m = trim s @ rev (takeWhile isWhiteSpace (rev ?m))"
    by (metis rev_append rev_rev_ident trim_def takeWhile_dropWhile_id)
  with ne have "hd ?m = hd (trim s)"
    by (metis hd_append2)
  with hm last show ?thesis by simp
qed

lemma leed_block_rejects_iff:
  "(truthy (FilterState.leedCertified f) \<and>
     (let leedStatus = (if BuildingData.leedCertified b \<noteq> []
                        then toLowerCase (trim (BuildingData.leedCertified b)) else []);
          isLeedCertified = (leedStatus \<noteq> [] \<and> leedStatus \<noteq> ''no'' \<and>
                             leedStatus \<noteq> ''not applicable'' \<and> leedStatus \<noteq> [])
      in (FilterState.leedCertified f = Some ''certified'' \<and> \<not> isLeedCertified) \<or>
         (FilterState.leedCertified f = Some ''not-certified'' \<and> isLeedCertified)))
   \<longleftrightarrow> \<not> leedMatch f b"
proof (cases "BuildingData.leedCertified b = []")
  case True
  then show ?thesis
    by (auto simp: leedMatch_def leedStatusCertified_def trim_Nil)
next
  case False
  have "leedStatusCertified b \<longleftrightarrow>
        toLowerCase (trim (BuildingData.leedCertified b)) \<notin> {''no'', ''not applicable'', []}"
    unfolding leedStatusCertified_def lowered_status_iff by simp
  with False show ?thesis
    by (auto simp: leedMatch_def Let_def)
qed

lemma keep_iff_satisfiesAll:
  "applyFilters f data = filter (satisfiesAll f) data"
  unfolding applyFilters_def
proof (rule filter_cong[OF refl])
  fix item
  have range: "\<And>r v. (v < fst r \<or> v > snd r) \<longleftrightarrow> \<not> inclusiveRange r (v::number)"
    by (auto simp: inclusiveRange_def)
  have dept: "(length (departments f) > 0 \<and> \<not> List.member (departments f) (departmentName item))
                \<longleftrightarrow> \<not> departmentMembership f item"
    by (auto simp: departmentMembership_def)
  have ptype: "(length (propertyTypes f) > 0 \<and>
                 \<not> List.member (propertyTypes f) (primaryPropertyType item))
                \<longleftrightarrow> \<not> propertyTypeMembership f item"
    by (auto simp: propertyTypeMembership_def)
  have search: "(searchTerm f \<noteq> [] \<and>
        (let searchLower = toLowerCase (searchTerm f);
             searchableText = toLowerCase (propertyName item @ '' '' @ departmentName item @ '' '' @
                                           address1 item @ '' '' @ city item)
         in \<not> str_includes searchableText searchLower)) \<longleftrightarrow> \<not> searchMatch f item"
    by (simp add: searchMatch_def includes_lowered_iff Let_def)
  have cty: "(truthy (selectedCity f) \<and> Some (city item) \<noteq> selectedCity f)
               \<longleftrightarrow> \<not> cityMatch f item"
    by (auto simp: cityMatch_def truthy_iff)
  show "(if length (departments f) > 0 \<and>
        \<not> List.member (departments f) (departmentName item) then False
     else if length (propertyTypes f) > 0 \<and>
        \<not> List.member (propertyTypes f) (primaryPropertyType item) then False
     else if yearBuilt item < fst (yearRange f) \<or>
        yearBuilt item > snd (yearRange f) then False
     else if siteEnergyUseKbtu item < fst (energyRange f) \<or>
        siteEnergyUseKbtu item > snd (energyRange f) then False
     else if propertyGFA item < fst (gfaRange f) \<or>
        propertyGFA item > snd (gfaRange f) then False
     else if truthy (FilterState.leedCertified f) \<and>
        (let leedStatus = (if BuildingData.leedCertified item \<noteq> []
                           then toLowerCase (trim (BuildingData.leedCertified item)) else []);
             isLeedCertified = (leedStatus \<noteq> [] \<and> leedStatus \<noteq> ''no'' \<and>
                                leedStatus \<noteq> ''not applicable'' \<and> leedStatus \<noteq> [])
         in (FilterState.leedCertified f = Some ''certified'' \<and> \<not> isLeedCertified) \<or>
            (FilterState.leedCertified f = Some ''not-certified'' \<and> isLeedCertified))
       then False
     else if searchTerm f \<noteq> [] \<and>
        (let searchLower = toLowerCase (searchTerm f);
             searchableText = toLowerCase (propertyName item @ '' '' @ departmentName item @ '' '' @
                                           address1 item @ '' '' @ city item)
         in \<not> str_includes searchableText searchLower) then False
     else if truthy (selectedCity f) \<and>
        Some (city item) \<noteq> selectedCity f then False
     else True) = satisfiesAll f item"
    unfolding dept ptype range leed_block_rejects_iff search cty
    by (simp add: satisfiesAll_def)
qed

text \<open>
  Claim C1. For every record array and every filter state, \<open>applyFilters\<close> returns the
  records of the input that satisfy every active predicate (department membership,
  property-type membership, inclusive year, energy and floor-area ranges, the LEED
  tri-state match, the case-insensitive substring search over name, department, address
  and city, which are joined by single spaces and searched as one text, and the exact
  city match), in the order of the input: the result is a
  subsequence of the input, no record occurs more often than in the input, and a record
  is in the result exactly when it is in the input and satisfies all the predicates.
\<close>

theorem C1_applyFilters_stable_conjunction:
  "applyFilters f data = filter (satisfiesAll f) data \<and>
   subseq (applyFilters f data) data \<and>
   (\<forall>b. count_list (applyFilters f data) b \<le> count_list data b) \<and>
   (\<forall>b. b \<in> set (applyFilters f data) \<longleftrightarrow> b \<in> set data \<and> satisfiesAll f b)"
proof -
  have eq: "applyFilters f data = filter (satisfiesAll f) data"
    by (rule keep_iff_satisfiesAll)
  have cnt: "count_list (filter P xs) b \<le> count_list xs b" for P and xs :: "BuildingData list" and b
    by (induction xs) auto
  show ?thesis
    unfolding eq using cnt by auto
qed

text \<open>
  Claim C2. Under a filter state with no department and no property type selected, no
  LEED filter, an empty search term, no selected city, and year, energy and floor-area
  ranges that contain the values of every record of the input, \<open>applyFilters\<close> returns
  the input unchanged.
\<close>

theorem C2_empty_filter_identity:
  assumes "departments f = []" and "propertyTypes f = []"
    and "FilterState.leedCertified f = None" and "searchTerm f = []"
    and "selectedCity f = None"
    and "\<forall>b \<in> set data.
           fst (yearRange f) \<le> yearBuilt b \<and> yearBuilt b \<le> snd (yearRange f) \<and>
           fst (energyRange f) \<le> siteEnergyUseKbtu b \<and> siteEnergyUseKbtu b \<le> snd (energyRange f) \<and>
           fst (gfaRange f) \<le> propertyGFA b \<and> propertyGFA b \<le> snd (gfaRange f)"
  shows "applyFilters f data = data"
proof -
  have "satisfiesAll f b" if "b \<in> set data" for b
    using assms that
    by (simp add: satisfiesAll_def departmentMembership_def propertyTypeMembership_def
        inclusiveRange_def leedMatch_def searchMatch_def cityMatch_def)
  then show ?thesis
    by (simp add: keep_iff_satisfiesAll)
qed

lemma sample_values [simp]:
  "yearBuilt sacramentoOffice = Finite 1950" "yearBuilt oaklandDepot = Finite 0"
  "siteEnergyUseKbtu sacramentoOffice = Finite 500" "siteEnergyUseKbtu oaklandDepot = Finite 100"
  "propertyGFA sacramentoOffice = Finite 20000" "propertyGFA oaklandDepot = Finite 5000"
  "city sacramentoOffice = ''Sacramento''" "city oaklandDepot = ''Oakland''"
  "propertyId sacramentoOffice = ''P-1''" "propertyId oaklandDepot = ''P-2''"
  "propertyName sacramentoOffice = ''Capitol Annex''" "propertyName oaklandDepot = ''Harbor Depot''"
  "departmentName sacramentoOffice = ''General Services''"
  "departmentName oaklandDepot = ''Transportation''"
  "primaryPropertyType sacramentoOffice = ''Office''"
  "primaryPropertyType oaklandDepot = ''Warehouse''"
  "BuildingData.leedCertified sacramentoOffice = []" "BuildingData.leedCertified oaklandDepot = []"
  "address1 sacramentoOffice = []" "address1 oaklandDepot = []"
  by (simp_all add: sacramentoOffice_def oaklandDepot_def blankBuilding_def BuildingData.make_def)

lemma sample_distinct [simp]: "sacramentoOffice \<noteq> oaklandDepot"
proof
  assume "sacramentoOffice = oaklandDepot"
  then have "city sacramentoOffice = city oaklandDepot" by simp
  then show False by simp
qed

lemma number_order_simps [simp]:
  "Finite a < Finite b \<longleftrightarrow> a < b" "Finite a < Infinity" "NegInfinity < Finite a"
  "\<not> Infinity < x" "\<not> x < NegInfinity" "x \<le> Infinity" "NegInfinity \<le> x"
  by (cases x; auto simp: less_number_def)+

lemma sample_filters [simp]:
  "departments (currentFilters sampleState) = []"
  "propertyTypes (currentFilters sampleState) = []"
  "yearRange (currentFilters sampleState) = (Finite 0, Finite 2025)"
  "energyRange (currentFilters sampleState) = (Finite 0, Infinity)"
  "gfaRange (currentFilters sampleState) = (Finite 0, Infinity)"
  "FilterState.leedCertified (currentFilters sampleState) = None"
  "searchTerm (currentFilters sampleState) = []"
  "selectedCity (currentFilters sampleState) = None"
  "allBuildingData sampleState = [sacramentoOffice, oaklandDepot]"
  "filteredBuildingData sampleState = [sacramentoOffice, oaklandDepot]"
  "selectedItems (chartInteractionState sampleState) = []"
  "notifications sampleState = []" "downloads sampleState = []"
  "drillDownPanel sampleState = None"
  by (simp_all add: sampleState_def initialFilters_def initialInteraction_def)

theorem C2_empty_filter_identity_witness:
  "departments (currentFilters sampleState) = [] \<and>
   propertyTypes (currentFilters sampleState) = [] \<and>
   FilterState.leedCertified (currentFilters sampleState) = None \<and>
   searchTerm (currentFilters sampleState) = [] \<and>
   selectedCity (currentFilters sampleState) = None \<and>
   yearRange (currentFilters sampleState) = (Finite 0, Finite 2025) \<and>
   energyRange (currentFilters sampleState) = (Finite 0, Infinity) \<and>
   gfaRange (currentFilters sampleState) = (Finite 0, Infinity) \<and>
   Finite 0 \<le> yearBuilt sacramentoOffice \<and> yearBuilt sacramentoOffice \<le> Finite 2025 \<and>
   Finite 0 \<le> yearBuilt oaklandDepot \<and> yearBuilt oaklandDepot \<le> Finite 2025 \<and>
   Finite 0 \<le> siteEnergyUseKbtu sacramentoOffice \<and> siteEnergyUseKbtu sacramentoOffice \<le> Infinity \<and>
   Finite 0 \<le> siteEnergyUseKbtu oaklandDepot \<and> siteEnergyUseKbtu oaklandDepot \<le> Infinity \<and>
   Finite 0 \<le> propertyGFA sacramentoOffice \<and> propertyGFA sacramentoOffice \<le> Infinity \<and>
   Finite 0 \<le> propertyGFA oaklandDepot \<and> propertyGFA oaklandDepot \<le> Infinity \<and>
   applyFilters (currentFilters sampleState) [sacramentoOffice, oaklandDepot] =
     [sacramentoOffice, oaklandDepot]"
  using C2_empty_filter_identity [of "currentFilters sampleState" "[sacramentoOffice, oaklandDepot]"]
  by simp

subsection \<open>The filter on the small dataset\<close>

text \<open>
  A search term in capitals finds the record whose name is written in mixed case, and the
  LEED filter treats a status as not certified when it reads \<^verbatim>\<open>no\<close> or
  \<^verbatim>\<open>not applicable\<close> in any case with white space, the no-break space included,
  around it.
\<close>

lemma lowered_samples:
  "toLowerCase ''CAPITOL annex GEN'' = ''capitol annex gen''"
  "toLowerCase ''Capitol Annex General Services  Sacramento'' =
     ''capitol annex general services  sacramento''"
  "toLowerCase ''Harbor Depot Transportation  Oakland'' = ''harbor depot transportation  oakland''"
  by code_simp+

lemma lowered_sample_search:
  "sublist ''capitol annex gen'' ''capitol annex general services  sacramento''"
  "\<not> sublist ''capitol annex gen'' ''harbor depot transportation  oakland''"
  by code_simp+

lemma applyFilters_search_sample:
  "applyFilters ((currentFilters sampleState)\<lparr>searchTerm := ''CAPITOL annex GEN''\<rparr>)
     [sacramentoOffice, oaklandDepot] = [sacramentoOffice]"
  by (simp add: applyFilters_def str_includes_def Let_def lowered_samples lowered_sample_search)

lemma leed_status_samples:
  "toLowerCase (trim ''LEED Gold'') = ''leed gold''"
  "toLowerCase (trim ('' No'' @ [CHR 0xA0])) = ''no''"
  "toLowerCase (trim ''NOT Applicable '') = ''not applicable''"
  by code_simp+

lemma applyFilters_leed_sample:
  "applyFilters ((currentFilters sampleState)\<lparr>FilterState.leedCertified := Some ''certified''\<rparr>)
     [sacramentoOffice\<lparr>BuildingData.leedCertified := ''LEED Gold''\<rparr>,
      sacramentoOffice\<lparr>BuildingData.leedCertified := '' No'' @ [CHR 0xA0]\<rparr>,
      oaklandDepot\<lparr>BuildingData.leedCertified := ''NOT Applicable ''\<rparr>,
      oaklandDepot] =
     [sacramentoOffice\<lparr>BuildingData.leedCertified := ''LEED Gold''\<rparr>]"
  using leed_status_samples
  by (simp add: applyFilters_def Let_def)

theorem C1_applyFilters_stable_conjunction_witness:
  "applyFilters ((currentFilters sampleState)\<lparr>searchTerm := ''CAPITOL annex GEN''\<rparr>)
     [sacramentoOffice, oaklandDepot] = [sacramentoOffice] \<and>
   satisfiesAll ((currentFilters sampleState)\<lparr>searchTerm := ''CAPITOL annex GEN''\<rparr>)
     sacramentoOffice \<and>
   \<not> satisfiesAll ((currentFilters sampleState)\<lparr>searchTerm := ''CAPITOL annex GEN''\<rparr>)
     oaklandDepot"
proof -
  let ?f = "(currentFilters sampleState)\<lparr>searchTerm := ''CAPITOL annex GEN''\<rparr>"
  let ?d = "[sacramentoOffice, oaklandDepot]"
  from C1_applyFilters_stable_conjunction [of ?f ?d]
  have mem: "b \<in> set (applyFilters ?f ?d) \<longleftrightarrow> b \<in> set ?d \<and> satisfiesAll ?f b" for b
    by blast
  have r: "applyFilters ?f ?d = [sacramentoOffice]"
    by (rule applyFilters_search_sample)
  from mem[of sacramentoOffice] have a: "satisfiesAll ?f sacramentoOffice"
    unfolding r by simp
  from mem[of oaklandDepot] have b: "\<not> satisfiesAll ?f oaklandDepot"
    unfolding r using sample_distinct by auto
  from r a b show ?thesis by simp
qed

subsection \<open>Handlers of chart clicks\<close>

lemma updateFilteredData_fields [simp]:
  "currentFilters (updateFilteredData s) = currentFilters s"
  "allBuildingData (updateFilteredData s) = allBuildingData s"
  "filteredBuildingData (updateFilteredData s) = applyFilters (currentFilters s) (allBuildingData s)"
  "chartInteractionState (updateFilteredData s) = chartInteractionState s"
  "notifications (updateFilteredData s) = notifications s"
  "downloads (updateFilteredData s) = downloads s"
  "drillDownPanel (updateFilteredData s) = None"
  by (simp_all add: updateFilteredData_def)

lemma showNotification_fields [simp]:
  "currentFilters (showNotification m t s) = currentFilters s"
  "allBuildingData (showNotification m t s) = allBuildingData s"
  "filteredBuildingData (showNotification m t s) = filteredBuildingData s"
  "chartInteractionState (showNotification m t s) = chartInteractionState s"
  "notifications (showNotification m t s) = notifications s @ [(m, t)]"
  "downloads (showNotification m t s) = downloads s"
  "drillDownPanel (showNotification m t s) = drillDownPanel s"
  by (simp_all add: showNotification_def)

lemma showDrillDownPanel_fields [simp]:
  "currentFilters (showDrillDownPanel l c s) = currentFilters s"
  "allBuildingData (showDrillDownPanel l c s) = allBuildingData s"
  "filteredBuildingData (showDrillDownPanel l c s) = filteredBuildingData s"
  "chartInteractionState (showDrillDownPanel l c s) = chartInteractionState s"
  "notifications (showDrillDownPanel l c s) = notifications s"
  "downloads (showDrillDownPanel l c s) = downloads s"
  by (simp_all add: showDrillDownPanel_def Let_def)

text \<open>
  Claim C9. \<open>handleGreenPowerBinClick\<close> changes no field of the filter state other than
  \<open>energyRange\<close>: the label \<^verbatim>\<open>0% Usage\<close> sets the range to [0, 0], the label
  \<^verbatim>\<open>1-25%\<close> sets it to [1, 25], and every other label leaves the filter state as it was.
\<close>

theorem C9_green_power_click_frame:
  "currentFilters (handleGreenPowerBinClick binLabel s) =
     (if binLabel = ''0% Usage'' then (currentFilters s)\<lparr>energyRange := (Finite 0, Finite 0)\<rparr>
      else if binLabel = ''1-25%'' then (currentFilters s)\<lparr>energyRange := (Finite 1, Finite 25)\<rparr>
      else currentFilters s) \<and>
   departments (currentFilters (handleGreenPowerBinClick binLabel s)) = departments (currentFilters s) \<and>
   propertyTypes (currentFilters (handleGreenPowerBinClick binLabel s)) = propertyTypes (currentFilters s) \<and>
   yearRange (currentFilters (handleGreenPowerBinClick binLabel s)) = yearRange (currentFilters s) \<and>
   gfaRange (currentFilters (handleGreenPowerBinClick binLabel s)) = gfaRange (currentFilters s) \<and>
   FilterState.leedCertified (currentFilters (handleGreenPowerBinClick binLabel s)) =
     FilterState.leedCertified (currentFilters s) \<and>
   searchTerm (currentFilters (handleGreenPowerBinClick binLabel s)) = searchTerm (currentFilters s) \<and>
   selectedCity (currentFilters (handleGreenPowerBinClick binLabel s)) = selectedCity (currentFilters s)"
  by (simp add: handleGreenPowerBinClick_def)

subsection \<open>Toggling a department\<close>




lemma updateFilteredData_in_sync:
  "filteredBuildingData (updateFilteredData s) =
     applyFilters (currentFilters (updateFilteredData s)) (allBuildingData (updateFilteredData s))"
  by simp






subsection \<open>Selecting a city\<close>

lemma city_chart_id_dispatch:
  "\<not> str_includes ''chart-cityDistribution'' ''deptDistribution''"
  "\<not> str_includes ''chart-cityDistribution'' ''propertyTypes''"
  "\<not> str_includes ''chart-cityDistribution'' ''energyVsGfa''"
  "\<not> str_includes ''chart-cityDistribution'' ''greenPowerDistribution''"
  "\<not> str_includes ''chart-cityDistribution'' ''dept''"
  "\<not> str_includes ''chart-cityDistribution'' ''Department''"
  "\<not> str_includes ''chart-cityDistribution'' ''type''"
  "str_includes ''chart-cityDistribution'' ''city''"
  "str_includes ''chart-cityDistribution'' ''cityDistribution''"
  by code_simp+

lemma applyFilters_selectedCity:
  assumes "c \<noteq> []"
  shows "applyFilters (f\<lparr>selectedCity := Some c\<rparr>) data =
         filter (\<lambda>b. city b = c) (applyFilters (f\<lparr>selectedCity := None\<rparr>) data)"
proof -
  have "satisfiesAll (f\<lparr>selectedCity := Some c\<rparr>) b \<longleftrightarrow>
        satisfiesAll (f\<lparr>selectedCity := None\<rparr>) b \<and> city b = c" for b
    using assms
    by (auto simp: satisfiesAll_def departmentMembership_def propertyTypeMembership_def
        leedMatch_def searchMatch_def cityMatch_def)
  then have "satisfiesAll (f\<lparr>selectedCity := Some c\<rparr>) =
             (\<lambda>b. satisfiesAll (f\<lparr>selectedCity := None\<rparr>) b \<and> city b = c)"
    by (intro ext)
  then show ?thesis
    by (simp add: keep_iff_satisfiesAll)
qed

lemma handleChartClick_city_chart:
  "currentFilters (handleChartClick (Some (i, label)) ''chart-cityDistribution'' s) = currentFilters s"
  "filteredBuildingData (handleChartClick (Some (i, label)) ''chart-cityDistribution'' s) =
     filteredBuildingData s"
  by (simp_all add: handleChartClick_def city_chart_id_dispatch)

lemma handleChartClick_city_panel:
  "label \<noteq> [] \<Longrightarrow>
   drillDownPanel (handleChartClick (Some (i, label)) ''chart-cityDistribution'' s) =
     (if filter (\<lambda>b. city b = label) (filteredBuildingData s) = [] then None
      else Some (label, ''chart-cityDistribution''))"
  by (simp add: handleChartClick_def showDrillDownPanel_def getRelatedBuildings_def
      city_chart_id_dispatch)

text \<open>
  Claim C6, as stated, fails: the click on the bar of Sacramento in the geography chart
  (canvas \<^verbatim>\<open>chart-cityDistribution\<close>) is handled by \<open>handleChartClick\<close>, which has no
  branch for that chart. On the small dataset the selected city stays \<^verbatim>\<open>null\<close> and the
  active set still holds the record of Oakland; the click only opens the drill-down panel.
\<close>

theorem C6_chart_click_counterexample:
  "selectedCity (currentFilters
      (handleChartClick (Some (0, ''Sacramento'')) ''chart-cityDistribution'' sampleState)) = None \<and>
   filteredBuildingData
      (handleChartClick (Some (0, ''Sacramento'')) ''chart-cityDistribution'' sampleState) =
     [sacramentoOffice, oaklandDepot] \<and>
   city oaklandDepot \<noteq> ''Sacramento'' \<and>
   drillDownPanel
      (handleChartClick (Some (0, ''Sacramento'')) ''chart-cityDistribution'' sampleState) =
     Some (''Sacramento'', ''chart-cityDistribution'')"
  by (simp add: handleChartClick_city_chart showDrillDownPanel_def getRelatedBuildings_def
      city_chart_id_dispatch handleChartClick_def)

text \<open>
  Claim C6, amended. The click on the element of Sacramento in the geography chart leaves
  the filter state and the active set as they are, and opens the drill-down panel for
  Sacramento when the active set holds a record of that city. The action
  ``Filter to This Category'' of that panel, \<open>filterToCategory\<close> with the label
  Sacramento and the chart id \<^verbatim>\<open>chart-cityDistribution\<close>, sets the selected city to
  Sacramento, changes no other field of the filter state, and recomputes the active set
  as exactly the records with city Sacramento among those that pass the other predicates.
\<close>

theorem C6_filterToCategory_city:
  "currentFilters (handleChartClick (Some (i, ''Sacramento'')) ''chart-cityDistribution'' s) =
     currentFilters s \<and>
   filteredBuildingData (handleChartClick (Some (i, ''Sacramento'')) ''chart-cityDistribution'' s) =
     filteredBuildingData s \<and>
   drillDownPanel (handleChartClick (Some (i, ''Sacramento'')) ''chart-cityDistribution'' s) =
     (if filter (\<lambda>b. city b = ''Sacramento'') (filteredBuildingData s) = [] then None
      else Some (''Sacramento'', ''chart-cityDistribution'')) \<and>
   currentFilters (filterToCategory ''Sacramento'' ''chart-cityDistribution'' s) =
     (currentFilters s)\<lparr>selectedCity := Some ''Sacramento''\<rparr> \<and>
   selectedCity (currentFilters (filterToCategory ''Sacramento'' ''chart-cityDistribution'' s)) =
     Some ''Sacramento'' \<and>
   filteredBuildingData (filterToCategory ''Sacramento'' ''chart-cityDistribution'' s) =
     filter (\<lambda>b. city b = ''Sacramento'')
       (applyFilters ((currentFilters s)\<lparr>selectedCity := None\<rparr>) (allBuildingData s))"
proof -
  have f: "currentFilters (filterToCategory ''Sacramento'' ''chart-cityDistribution'' s) =
        (currentFilters s)\<lparr>selectedCity := Some ''Sacramento''\<rparr>"
    and d: "filteredBuildingData (filterToCategory ''Sacramento'' ''chart-cityDistribution'' s) =
        applyFilters ((currentFilters s)\<lparr>selectedCity := Some ''Sacramento''\<rparr>) (allBuildingData s)"
    by (simp_all add: filterToCategory_def city_chart_id_dispatch Let_def)
  have "applyFilters ((currentFilters s)\<lparr>selectedCity := Some ''Sacramento''\<rparr>) (allBuildingData s) =
        filter (\<lambda>b. city b = ''Sacramento'')
          (applyFilters ((currentFilters s)\<lparr>selectedCity := None\<rparr>) (allBuildingData s))"
    by (rule applyFilters_selectedCity) simp
  moreover have "drillDownPanel
        (handleChartClick (Some (i, ''Sacramento'')) ''chart-cityDistribution'' s) =
      (if filter (\<lambda>b. city b = ''Sacramento'') (filteredBuildingData s) = [] then None
       else Some (''Sacramento'', ''chart-cityDistribution''))"
    by (rule handleChartClick_city_panel) simp
  ultimately show ?thesis
    using f d by (simp add: handleChartClick_city_chart)
qed

subsection \<open>Resetting all filters\<close>

lemma Math_min_Min: "xs \<noteq> [] \<Longrightarrow> Math_min xs = Min (set xs)"
proof (cases xs)
  case Nil
  then show "xs \<noteq> [] \<Longrightarrow> ?thesis" by simp
next
  case (Cons x ys)
  have "min x Infinity = x" by (rule min_absorb1) simp
  then show ?thesis
    using Min.set_eq_fold[of x ys] by (simp add: Math_min_def Cons)
qed

lemma Math_max_Max: "xs \<noteq> [] \<Longrightarrow> Math_max xs = Max (set xs)"
proof (cases xs)
  case Nil
  then show "xs \<noteq> [] \<Longrightarrow> ?thesis" by simp
next
  case (Cons x ys)
  have "max x NegInfinity = x" by (rule max_absorb1) simp
  then show ?thesis
    using Max.set_eq_fold[of x ys] by (simp add: Math_max_def Cons)
qed

lemma resetAllFilters_fields:
  "allBuildingData (resetAllFilters s) = allBuildingData s"
  "filteredBuildingData (resetAllFilters s) =
     applyFilters (currentFilters (resetAllFilters s)) (allBuildingData s)"
  "filter (\<lambda>y. y > Finite 1800 \<and> y < Finite 2030) (map yearBuilt (allBuildingData s)) \<noteq> [] \<Longrightarrow>
   yearRange (currentFilters (resetAllFilters s)) =
     (Math_min (filter (\<lambda>y. y > Finite 1800 \<and> y < Finite 2030) (map yearBuilt (allBuildingData s))),
      Math_max (filter (\<lambda>y. y > Finite 1800 \<and> y < Finite 2030) (map yearBuilt (allBuildingData s))))"
  by (auto simp: resetAllFilters_def Let_def)

text \<open>
  Claim C10. When the dataset has a record built strictly between 1800 and 2030,
  \<open>resetAllFilters\<close> sets the year range to the least and the greatest of the years
  built that lie strictly between 1800 and 2030. Every record of the recomputed active
  set then has a year built other than 0, so a dataset with a record whose year built is 0
  is not restored in full by the reset.
\<close>

theorem C10_reset_excludes_unknown_year:
  assumes "\<exists>b \<in> set (allBuildingData s). Finite 1800 < yearBuilt b \<and> yearBuilt b < Finite 2030"
  shows "yearRange (currentFilters (resetAllFilters s)) =
           (Min {y \<in> yearBuilt ` set (allBuildingData s). Finite 1800 < y \<and> y < Finite 2030},
            Max {y \<in> yearBuilt ` set (allBuildingData s). Finite 1800 < y \<and> y < Finite 2030}) \<and>
         (\<forall>b \<in> set (filteredBuildingData (resetAllFilters s)). yearBuilt b \<noteq> Finite 0) \<and>
         ((\<exists>b \<in> set (allBuildingData s). yearBuilt b = Finite 0) \<longrightarrow>
            filteredBuildingData (resetAllFilters s) \<noteq> allBuildingData (resetAllFilters s))"
proof -
  let ?ys = "filter (\<lambda>y. y > Finite 1800 \<and> y < Finite 2030) (map yearBuilt (allBuildingData s))"
  let ?Y = "{y \<in> yearBuilt ` set (allBuildingData s). Finite 1800 < y \<and> y < Finite 2030}"
  have setY: "set ?ys = ?Y" by auto
  have ne: "?ys \<noteq> []"
    using assms by (auto simp: filter_empty_conv)
  have range: "yearRange (currentFilters (resetAllFilters s)) = (Min ?Y, Max ?Y)"
    using resetAllFilters_fields(3)[OF ne] Math_min_Min[OF ne] Math_max_Max[OF ne]
    by (simp only: setY)
  have "set ?ys \<noteq> {}"
    using ne by (simp only: set_empty not_False_eq_True)
  then have "Min (set ?ys) \<in> set ?ys"
    by (rule Min_in[OF finite_set])
  then have low: "Finite 1800 < Min ?Y"
    unfolding setY by blast
  have kept: "yearBuilt b \<noteq> Finite 0"
    if "b \<in> set (filteredBuildingData (resetAllFilters s))" for b
  proof -
    from that have "satisfiesAll (currentFilters (resetAllFilters s)) b"
      by (simp add: resetAllFilters_fields(2) keep_iff_satisfiesAll)
    then have "Min ?Y \<le> yearBuilt b"
      by (simp add: satisfiesAll_def inclusiveRange_def range)
    with low have "Finite 1800 < yearBuilt b" by simp
    then show ?thesis by auto
  qed
  have "filteredBuildingData (resetAllFilters s) \<noteq> allBuildingData (resetAllFilters s)"
    if "\<exists>b \<in> set (allBuildingData s). yearBuilt b = Finite 0"
    using that kept by (auto simp: resetAllFilters_fields(1))
  with range kept show ?thesis by blast
qed

theorem C10_reset_excludes_unknown_year_witness:
  "(\<exists>b \<in> set (allBuildingData sampleState). Finite 1800 < yearBuilt b \<and> yearBuilt b < Finite 2030) \<and>
   yearBuilt oaklandDepot = Finite 0 \<and>
   oaklandDepot \<in> set (allBuildingData sampleState) \<and>
   oaklandDepot \<notin> set (filteredBuildingData (resetAllFilters sampleState)) \<and>
   filteredBuildingData (resetAllFilters sampleState) \<noteq> allBuildingData (resetAllFilters sampleState)"
proof -
  have some: "\<exists>b \<in> set (allBuildingData sampleState).
      Finite 1800 < yearBuilt b \<and> yearBuilt b < Finite 2030"
    by simp
  have zero: "\<exists>b \<in> set (allBuildingData sampleState). yearBuilt b = Finite 0"
    by simp
  from C10_reset_excludes_unknown_year [OF some] some zero show ?thesis
    by auto
qed

lemma reset_sample_value:
  "yearRange (currentFilters (resetAllFilters sampleState)) = (Finite 1950, Finite 1950)"
  "filteredBuildingData (resetAllFilters sampleState) = [sacramentoOffice]"
   apply (simp_all add: resetAllFilters_def Let_def Math_min_def Math_max_def initialFilters_def
      keep_iff_satisfiesAll satisfiesAll_def departmentMembership_def propertyTypeMembership_def
      inclusiveRange_def leedMatch_def searchMatch_def cityMatch_def min_def max_def)
  done

subsection \<open>Comparison set\<close>

lemma findIndex_bounds: "- 1 \<le> findIndex P xs \<and> findIndex P xs < int (length xs)"
  by (induction xs) (auto simp: Let_def)

lemma findIndex_none_iff: "findIndex P xs = - 1 \<longleftrightarrow> (\<forall>x \<in> set xs. \<not> P x)"
proof (induction xs)
  case Nil
  then show ?case by simp
next
  case (Cons x xs)
  have "findIndex P xs + 1 \<noteq> - 1"
    using findIndex_bounds[of P xs] by linarith
  with Cons show ?case
    by (auto simp: Let_def)
qed

lemma find_Some_property: "List.find P xs = Some x \<Longrightarrow> P x \<and> x \<in> set xs"
  by (induction xs) (auto split: if_splits)

lemma addToComparison_unknown:
  "List.find (\<lambda>b. propertyId b = pid) (allBuildingData s) = None \<Longrightarrow> addToComparison pid s = s"
  by (simp add: addToComparison_def)

lemma addToComparison_known:
  assumes "List.find (\<lambda>b. propertyId b = pid) (allBuildingData s) = Some building"
  shows "allBuildingData (addToComparison pid s) = allBuildingData s"
    and "selectedItems (chartInteractionState (addToComparison pid s)) =
           (if \<forall>item \<in> set (selectedItems (chartInteractionState s)). propertyId item \<noteq> pid
            then selectedItems (chartInteractionState s) @ [building]
            else selectedItems (chartInteractionState s))"
    and "notifications (addToComparison pid s) =
           notifications s @
           [if \<forall>item \<in> set (selectedItems (chartInteractionState s)). propertyId item \<noteq> pid
            then (''Added '' @ [CHR 0x22] @ propertyName building @ [CHR 0x22] @ '' to comparison'',
                  Success)
            else ([CHR 0x22] @ propertyName building @ [CHR 0x22] @ '' is already in comparison'',
                  Warning)]"
  using assms by (simp_all add: addToComparison_def Let_def findIndex_none_iff)

lemma unique_ids_count:
  "distinct (map propertyId items) \<Longrightarrow> length (filter (\<lambda>item. propertyId item = pid) items) \<le> 1"
proof (induction items)
  case Nil
  then show ?case by simp
next
  case (Cons a items)
  show ?case
  proof (cases "propertyId a = pid")
    case True
    with Cons.prems have "pid \<notin> propertyId ` set items" by simp
    then have "\<forall>item \<in> set items. propertyId item \<noteq> pid" by blast
    then have "filter (\<lambda>item. propertyId item = pid) items = []"
      by (simp add: filter_empty_conv)
    with True show ?thesis by simp
  next
    case False
    with Cons show ?thesis by simp
  qed
qed

text \<open>
  The comparison list starts empty, and the three operations on it keep the property
  ids of its entries pairwise different.
\<close>

lemma addToComparison_unique:
  assumes "distinct (map propertyId (selectedItems (chartInteractionState s)))"
  shows "distinct (map propertyId (selectedItems (chartInteractionState (addToComparison pid s))))"
proof (cases "List.find (\<lambda>b. propertyId b = pid) (allBuildingData s)")
  case None
  with assms show ?thesis by (simp add: addToComparison_unknown)
next
  case (Some building)
  then have "propertyId building = pid"
    using find_Some_property by fastforce
  with assms show ?thesis
    by (auto simp: addToComparison_known(2)[OF Some])
qed

lemma removeFromComparison_unique:
  assumes "distinct (map propertyId (selectedItems (chartInteractionState s)))"
  shows "distinct (map propertyId (selectedItems (chartInteractionState (removeFromComparison pid s))))"
proof -
  have "distinct (take i ys @ drop (i + 1) ys)" if "distinct ys" for i and ys :: "string list"
  proof -
    from that have "distinct (take i ys @ drop i ys)" by simp
    moreover have "set (drop (i + 1) ys) \<subseteq> set (drop i ys)"
      by (rule set_drop_subset_set_drop) simp
    ultimately show ?thesis
      using that by (auto simp: distinct_append simp del: append_take_drop_id)
  qed
  from this[OF assms] show ?thesis
    by (simp add: removeFromComparison_def Let_def take_map drop_map assms)
qed

lemma clearAllComparison_unique:
  "distinct (map propertyId (selectedItems (chartInteractionState (clearAllComparison s))))"
  by (simp add: clearAllComparison_def)

text \<open>
  Claim C5, as stated, fails for an identifier that no record of the dataset carries:
  \<open>addToComparison\<close> looks the record up first and does nothing when there is none. On
  the small dataset, two invocations with the identifier \<^verbatim>\<open>P-9\<close> leave the comparison
  list empty and show no notification.
\<close>

theorem C5_unknown_id_counterexample:
  "selectedItems (chartInteractionState
      (addToComparison ''P-9'' (addToComparison ''P-9'' sampleState))) = [] \<and>
   notifications (addToComparison ''P-9'' (addToComparison ''P-9'' sampleState)) = []"
proof -
  have "List.find (\<lambda>b. propertyId b = ''P-9'') (allBuildingData sampleState) = None"
    by simp
  then have "addToComparison ''P-9'' sampleState = sampleState"
    by (rule addToComparison_unknown)
  then show ?thesis by simp
qed

text \<open>
  Claim C5, amended. For an identifier carried by a record of the dataset, and a
  comparison list with at most one entry for it (which holds for every list reached from
  the empty one), two invocations of \<open>addToComparison\<close> leave exactly one entry for the
  identifier; the second invocation leaves the list as the first one left it and shows
  the warning that the property is already in comparison. For an identifier that no
  record carries, an invocation changes nothing and shows nothing.
\<close>

theorem C5_add_twice_known_id:
  assumes "List.find (\<lambda>b. propertyId b = pid) (allBuildingData s) = Some building"
    and "length (filter (\<lambda>item. propertyId item = pid)
                   (selectedItems (chartInteractionState s))) \<le> 1"
  shows "length (filter (\<lambda>item. propertyId item = pid)
           (selectedItems (chartInteractionState (addToComparison pid (addToComparison pid s))))) = 1 \<and>
         selectedItems (chartInteractionState (addToComparison pid (addToComparison pid s))) =
           selectedItems (chartInteractionState (addToComparison pid s)) \<and>
         notifications (addToComparison pid (addToComparison pid s)) =
           notifications (addToComparison pid s) @
           [([CHR 0x22] @ propertyName building @ [CHR 0x22] @ '' is already in comparison'',
             Warning)]"
proof -
  let ?s1 = "addToComparison pid s"
  let ?items = "selectedItems (chartInteractionState s)"
  have id: "propertyId building = pid"
    using find_Some_property[OF assms(1)] by simp
  have found1: "List.find (\<lambda>b. propertyId b = pid) (allBuildingData ?s1) = Some building"
    by (simp add: addToComparison_known(1)[OF assms(1)] assms(1))
  have present: "\<not> (\<forall>item \<in> set (selectedItems (chartInteractionState ?s1)). propertyId item \<noteq> pid)"
    using id by (auto simp: addToComparison_known(2)[OF assms(1)])
  have same: "selectedItems (chartInteractionState (addToComparison pid ?s1)) =
              selectedItems (chartInteractionState ?s1)"
    using present by (simp add: addToComparison_known(2)[OF found1])
  have warn: "notifications (addToComparison pid ?s1) =
      notifications ?s1 @
      [([CHR 0x22] @ propertyName building @ [CHR 0x22] @ '' is already in comparison'', Warning)]"
    using present by (simp add: addToComparison_known(3)[OF found1])
  have one: "length (filter (\<lambda>item. propertyId item = pid)
                (selectedItems (chartInteractionState ?s1))) = 1"
  proof (cases "\<forall>item \<in> set ?items. propertyId item \<noteq> pid")
    case True
    then have "filter (\<lambda>item. propertyId item = pid) ?items = []"
      by (simp add: filter_empty_conv)
    with True id show ?thesis
      by (simp add: addToComparison_known(2)[OF assms(1)])
  next
    case False
    then have "filter (\<lambda>item. propertyId item = pid) ?items \<noteq> []"
      by (simp add: filter_empty_conv)
    then have "length (filter (\<lambda>item. propertyId item = pid) ?items) \<noteq> 0"
      by simp
    with assms(2) have "length (filter (\<lambda>item. propertyId item = pid) ?items) = 1"
      by linarith
    with False show ?thesis
      by (simp add: addToComparison_known(2)[OF assms(1)])
  qed
  from one same warn show ?thesis by simp
qed

theorem C5_add_twice_known_id_witness:
  "List.find (\<lambda>b. propertyId b = ''P-1'') (allBuildingData sampleState) = Some sacramentoOffice \<and>
   length (filter (\<lambda>item. propertyId item = ''P-1'')
             (selectedItems (chartInteractionState sampleState))) \<le> 1 \<and>
   length (filter (\<lambda>item. propertyId item = ''P-1'')
     (selectedItems (chartInteractionState
        (addToComparison ''P-1'' (addToComparison ''P-1'' sampleState))))) = 1 \<and>
   notifications (addToComparison ''P-1'' (addToComparison ''P-1'' sampleState)) =
     notifications (addToComparison ''P-1'' sampleState) @
     [([CHR 0x22] @ propertyName sacramentoOffice @ [CHR 0x22] @ '' is already in comparison'',
       Warning)]"
proof -
  have known: "List.find (\<lambda>b. propertyId b = ''P-1'') (allBuildingData sampleState) =
      Some sacramentoOffice"
    by simp
  have few: "length (filter (\<lambda>item. propertyId item = ''P-1'')
      (selectedItems (chartInteractionState sampleState))) \<le> 1"
    by simp
  from C5_add_twice_known_id [OF known few] known few show ?thesis
    by blast
qed

subsection \<open>Export\<close>

lemma exportBuildingsList_empty:
  assumes "getRelatedBuildings label chartId s = []"
  shows "exportBuildingsList numberText label chartId s =
           Inr (showNotification ''No buildings to export'' Warning s)"
  using assms by (simp add: exportBuildingsList_def)

lemma exportBuildingsList_returns:
  "\<exists>s'. exportBuildingsList numberText label chartId s = Inr s'"
  by (cases "getRelatedBuildings label chartId s") (simp_all add: exportBuildingsList_def Let_def)

text \<open>
  Claim C4 does not hold of \<open>exportFilteredData\<close>: with an empty active set and the
  format CSV it reads the keys of a first record that does not exist and throws a
  \<^verbatim>\<open>TypeError\<close>. No file is produced, but no warning is shown either; the sibling
  \<open>exportBuildingsList\<close> checks for the empty array and shows the warning.
\<close>

theorem C4_exportFilteredData_empty_csv_throws:
  "exportFilteredData numberText stringify CSV (s\<lparr>filteredBuildingData := []\<rparr>) = Inl TypeError"
  by (simp add: exportFilteredData_def)

subsection \<open>Histograms\<close>

lemma incrementBin_sum: "sum_list (map snd (incrementBin k bins)) = sum_list (map snd bins) + 1"
  by (induction bins) auto

lemma incrementBin_keys: "set (map fst (incrementBin k bins)) = insert k (set (map fst bins))"
proof (induction bins)
  case Nil
  then show ?case by simp
next
  case (Cons p bins)
  obtain k' c where p: "p = (k', c)" by (cases p)
  from Cons show ?case
    unfolding p by (cases "k' = k") auto
qed

lemma incrementBin_distinct:
  "distinct (map fst bins) \<Longrightarrow> distinct (map fst (incrementBin k bins))"
proof (induction bins)
  case Nil
  then show ?case by simp
next
  case (Cons p bins)
  obtain k' c where p: "p = (k', c)" by (cases p)
  show ?case
  proof (cases "k' = k")
    case True
    with Cons.prems p show ?thesis by simp
  next
    case False
    have "k' \<notin> set (map fst (incrementBin k bins))"
      using Cons.prems p False by (simp only: incrementBin_keys) auto
    with Cons p False show ?thesis by simp
  qed
qed

text \<open>
  Whatever function assigns the labels, the loop over the values adds one to exactly one
  bin per value: the counts add up to the number of values, and no label is held twice.
\<close>

lemma fold_incrementBin_sum:
  "sum_list (map snd (fold (\<lambda>x. incrementBin (g x)) xs bins)) =
     sum_list (map snd bins) + length xs"
  by (induction xs arbitrary: bins) (simp_all add: incrementBin_sum)

lemma fold_incrementBin_distinct:
  "distinct (map fst bins) \<Longrightarrow> distinct (map fst (fold (\<lambda>x. incrementBin (g x)) xs bins))"
  by (induction xs arbitrary: bins) (simp_all add: incrementBin_distinct)

lemma fold_incrementBin_keys:
  "set (map fst (fold (\<lambda>x. incrementBin (g x)) xs bins)) = g ` set xs \<union> set (map fst bins)"
  by (induction xs arbitrary: bins) (auto simp: incrementBin_keys simp del: set_map)

lemma sort_key_sum: "sum_list (map snd (sort_key f xs)) = sum_list (map (snd :: 'a \<times> nat \<Rightarrow> nat) xs)"
proof -
  have "mset (map snd (sort_key f xs)) = mset (map snd xs)"
    by simp
  then show ?thesis
    by (metis sum_mset_sum_list)
qed

lemma sort_key_distinct_keys:
  "distinct (map fst (sort_key f xs)) = distinct (map fst xs)"
proof -
  have "mset (map fst (sort_key f xs)) = mset (map fst xs)"
    by simp
  then show ?thesis
    by (rule mset_eq_imp_distinct_iff)
qed

lemma waterBins_sorted: "sorted (map binSortKey (waterBins data))"
  by (simp add: waterBins_def Let_def)

lemma waterBins_no_data:
  "filter (\<lambda>d. waterUseKgal d > Finite 0) data = [] \<Longrightarrow>
   waterBins data = [(TextLabel ''No Water Usage Data'', 0)]"
  by (simp add: waterBins_def)

lemma energyIntensityBins_no_data:
  "filter (\<lambda>d. siteEnergyUsedPerSqrFt d > Finite 0 \<and> siteEnergyUsedPerSqrFt d < Finite 1000 \<and>
                propertyGFA d > Finite 100) data = [] \<Longrightarrow>
   energyIntensityBins data = []"
  by (simp add: energyIntensityBins_def)

text \<open>
  Claim C3. In the water-usage histogram and in the energy-intensity histogram, every
  qualifying value (water use above 0; energy intensity above 0 and below 1000 on a
  property of more than 100 square feet) is counted in exactly one bin: the counts of the
  bins add up to the number of qualifying records, and the bins have pairwise different
  labels.
\<close>

theorem C3_histogram_counts_sum:
  "sum_list (map snd (waterBins data)) = length (filter (\<lambda>d. waterUseKgal d > Finite 0) data) \<and>
   distinct (map fst (waterBins data)) \<and>
   sum_list (map snd (energyIntensityBins data)) =
     length (filter (\<lambda>d. siteEnergyUsedPerSqrFt d > Finite 0 \<and>
                         siteEnergyUsedPerSqrFt d < Finite 1000 \<and>
                         propertyGFA d > Finite 100) data) \<and>
   distinct (map fst (energyIntensityBins data))"
proof -
  have w1: "sum_list (map snd (waterBins data)) =
      length (filter (\<lambda>d. waterUseKgal d > Finite 0) data)"
    by (simp add: waterBins_def Let_def sort_key_sum fold_incrementBin_sum del: sort_key_simps)
  have w2: "distinct (map fst (waterBins data))"
    by (simp add: waterBins_def Let_def sort_key_distinct_keys fold_incrementBin_distinct
        del: sort_key_simps)
  have e1: "sum_list (map snd (energyIntensityBins data)) =
      length (filter (\<lambda>d. siteEnergyUsedPerSqrFt d > Finite 0 \<and>
                          siteEnergyUsedPerSqrFt d < Finite 1000 \<and>
                          propertyGFA d > Finite 100) data)"
    by (simp add: energyIntensityBins_def Let_def fold_incrementBin_sum)
  have e2: "distinct (map fst (energyIntensityBins data))"
    by (simp add: energyIntensityBins_def Let_def fold_incrementBin_distinct)
  from w1 w2 e1 e2 show ?thesis by simp
qed

text \<open>
  Claim C8 holds of the water-usage histogram and fails on the energy-intensity
  histogram: without a qualifying value, \<open>waterBins\<close> is the single bin
  \<^verbatim>\<open>No Water Usage Data\<close> with count 0, and \<open>energyIntensityBins\<close> is the empty list
  of bins.
\<close>

theorem C8_energy_histogram_no_data_bin_missing:
  "waterBins [] = [(TextLabel ''No Water Usage Data'', 0)] \<and>
   energyIntensityBins [] = [] \<and>
   waterBins [blankBuilding] = [(TextLabel ''No Water Usage Data'', 0)] \<and>
   energyIntensityBins [blankBuilding] = []"
  by (simp add: waterBins_def energyIntensityBins_def blankBuilding_def BuildingData.make_def)

lemma waterBins_sample:
  "waterBins [sacramentoOffice, blankBuilding, oaklandDepot] =
     [(RangeLabel (Some (Finite 25)) (Some (Finite 49)), 1),
      (RangeLabel (Some (Finite 250)) (Some (Finite 274)), 1)]"
  by (simp add: waterBins_def sacramentoOffice_def oaklandDepot_def blankBuilding_def
      BuildingData.make_def Math_max_def max_def orDefault_def binLabelOf_def js_minus_def)

end
